theory Spec2Isabelle
  imports Main "HOL-Library.Finite_Map" "HOL-Library.Sublist" "HOL-Library.Word"
begin

section \<open>The execution cache's admission webhook: cache/server/mutation.go\<close>

text \<open>
  The theory embeds the four functions of \<^verbatim>\<open>mutation.go\<close>:
  \<^verbatim>\<open>MutatePodIfCached\<close>, \<^verbatim>\<open>generateCacheKeyFromTemplate\<close>, \<^verbatim>\<open>isValidPod\<close> with
  \<^verbatim>\<open>isKFPArgoPod\<close>, and \<^verbatim>\<open>isTFXPod\<close>. Calls to \<^verbatim>\<open>log\<close> have no effect on
  what the functions return and are left out.
\<close>

subsection \<open>Constants\<close>

definition KFPAnnotation :: string where
  "KFPAnnotation = ''pipelines.kubeflow.org''"

definition ArgoWorkflowNodeName :: string where
  "ArgoWorkflowNodeName = ''workflows.argoproj.io/node-name''"

definition ArgoWorkflowTemplate :: string where
  "ArgoWorkflowTemplate = ''workflows.argoproj.io/template''"

definition ExecutionKey :: string where
  "ExecutionKey = ''pipelines.kubeflow.org/execution_cache_key''"

definition CacheIDLabelKey :: string where
  "CacheIDLabelKey = ''pipelines.kubeflow.org/cache_id''"

definition AnnotationPath :: string where
  "AnnotationPath = ''/metadata/annotations''"

definition LabelPath :: string where
  "LabelPath = ''/metadata/labels''"

definition ArgoWorkflowOutputs :: string where
  "ArgoWorkflowOutputs = ''workflows.argoproj.io/outputs''"

definition TFXPodSuffix :: string where
  "TFXPodSuffix = ''tfx/orchestration/kubeflow/container_entrypoint.py''"

definition ArchiveLocationKey :: string where
  "ArchiveLocationKey = ''archiveLocation''"

text \<open>
  Modelled from the spec: the constant \<^verbatim>\<open>OperationTypeAdd\<close> is declared in a file of
  package \<^verbatim>\<open>server\<close> that is not among the sources. The spec names the operation kinds
  add, replace and remove; the other two are written \<^verbatim>\<open>"replace"\<close> and \<^verbatim>\<open>"remove"\<close>
  in \<^verbatim>\<open>mutation.go\<close> itself.
\<close>

definition OperationTypeAdd :: string where
  "OperationTypeAdd = ''add''"

subsection \<open>Go values: errors, panics, slices, maps\<close>

text \<open>
  A Go \<^verbatim>\<open>error\<close> is represented by its message. A run-time panic ends the call without
  a return value: a function that can panic returns an \<open>exec\<close>.
\<close>

type_synonym error = string

datatype panic = NilMapAssignment | IndexOutOfRange

datatype 'a exec = Panics panic | Returns 'a

text \<open>
  A slice is \<open>None\<close> when it is \<^verbatim>\<open>nil\<close>; \<open>Some []\<close> is the empty slice that is not
  \<^verbatim>\<open>nil\<close>. Both have length 0, \<^verbatim>\<open>range\<close> visits no element of either, and indexing
  outside the length panics.
\<close>

type_synonym 'a slice = "'a list option"

definition elems :: "'a slice \<Rightarrow> 'a list" where
  "elems s = (case s of None \<Rightarrow> [] | Some xs \<Rightarrow> xs)"

definition len :: "'a slice \<Rightarrow> nat" where
  "len s = length (elems s)"

definition at :: "'a slice \<Rightarrow> nat \<Rightarrow> 'a exec" where
  "at s i = (if i < len s then Returns (elems s ! i) else Panics IndexOutOfRange)"

definition append_slice :: "'a slice \<Rightarrow> 'a \<Rightarrow> 'a slice" where
  "append_slice s x = Some (elems s @ [x])"

text \<open>
  A Go map is a reference to a map object. The store holds the map objects; a variable of
  map type holds an address, or \<open>None\<close> for the \<^verbatim>\<open>nil\<close> map. Two variables with the same
  address denote the same object, so a write through one is seen through the other.
  Reading a \<^verbatim>\<open>nil\<close> map finds no key; writing to it panics.
\<close>

type_synonym addr = nat

type_synonym strmap = "(string, string) fmap"

type_synonym heap = "addr \<Rightarrow> strmap"

type_synonym mapref = "addr option"

definition map_len :: "heap \<Rightarrow> mapref \<Rightarrow> nat" where
  "map_len h m = (case m of None \<Rightarrow> 0 | Some a \<Rightarrow> fcard (fmdom (h a)))"

definition map_get :: "heap \<Rightarrow> mapref \<Rightarrow> string \<Rightarrow> string option" where
  "map_get h m k = (case m of None \<Rightarrow> None | Some a \<Rightarrow> fmlookup (h a) k)"

definition map_keys :: "heap \<Rightarrow> mapref \<Rightarrow> string fset" where
  "map_keys h m = (case m of None \<Rightarrow> {||} | Some a \<Rightarrow> fmdom (h a))"

definition map_assign :: "heap \<Rightarrow> mapref \<Rightarrow> string \<Rightarrow> string \<Rightarrow> heap exec" where
  "map_assign h m k v =
     (case m of None \<Rightarrow> Panics NilMapAssignment
      | Some a \<Rightarrow> Returns (h(a := fmupd k v (h a))))"

subsection \<open>Library functions with a fixed meaning\<close>

text \<open>\<^verbatim>\<open>strings.Contains(s, substr)\<close> and \<^verbatim>\<open>strings.HasSuffix(s, suffix)\<close> on byte strings.\<close>

fun strings_Contains :: "string \<Rightarrow> string \<Rightarrow> bool" where
  "strings_Contains [] substr = (substr = [])"
| "strings_Contains (c # s) substr = (prefix substr (c # s) \<or> strings_Contains s substr)"

definition strings_HasSuffix :: "string \<Rightarrow> string \<Rightarrow> bool" where
  "strings_HasSuffix s suf = (length suf \<le> length s \<and> drop (length s - length suf) s = suf)"

text \<open>\<^verbatim>\<open>strconv.FormatInt(i, 10)\<close>: the decimal digits, after a minus sign when \<open>i < 0\<close>.\<close>

definition digit_char :: "nat \<Rightarrow> char" where
  "digit_char d = ''0123456789abcdef'' ! d"

fun nat_digits :: "nat \<Rightarrow> string" where
  "nat_digits n =
     (if n < 10 then [digit_char n] else nat_digits (n div 10) @ [digit_char (n mod 10)])"

definition strconv_FormatInt10 :: "int \<Rightarrow> string" where
  "strconv_FormatInt10 i =
     (if i < 0 then CHR ''-'' # nat_digits (nat (- i)) else nat_digits (nat i))"

text \<open>\<^verbatim>\<open>hex.EncodeToString\<close>: two lowercase hexadecimal digits for every byte.\<close>

definition hex_EncodeToString :: "string \<Rightarrow> string" where
  "hex_EncodeToString bs =
     concat (map (\<lambda>c. [digit_char (of_char c div 16), digit_char (of_char c mod 16)]) bs)"

subsection \<open>Data\<close>

record ObjectMeta =
  Name :: string
  Annotations :: mapref
  Labels :: mapref

record Container =
  Name :: string
  Image :: string
  Command :: "string slice"

record PodSpec =
  InitContainers :: "Container slice"
  Containers :: "Container slice"

record Pod =
  ObjectMeta :: ObjectMeta
  Spec :: PodSpec

record GroupVersionResource =
  Group :: string
  Version :: string
  Resource :: string

record AdmissionRequest =
  Resource :: GroupVersionResource
  Object_Raw :: string

definition podResource :: GroupVersionResource where
  "podResource = \<lparr>Group = '''', Version = ''v1'', GroupVersionResource.Resource = ''pods''\<rparr>"

text \<open>
  Modelled from the spec: the type \<^verbatim>\<open>model.ExecutionCache\<close> is declared in package
  \<^verbatim>\<open>cache/model\<close>, which is not among the sources. The spec gives its essential
  attributes, a numeric identifier and a serialized execution-output payload;
  \<^verbatim>\<open>mutation.go\<close> reads \<^verbatim>\<open>ID\<close> with \<^verbatim>\<open>strconv.FormatInt\<close>, so it is an \<^verbatim>\<open>int64\<close>.
\<close>

record ExecutionCache =
  ID :: "64 word"
  ExecutionOutput :: string

text \<open>
  Modelled from the spec: the type \<^verbatim>\<open>patchOperation\<close> is declared in a file of package
  \<^verbatim>\<open>server\<close> that is not among the sources. The spec describes it as a triple of an
  operation kind, a path and an optional value. \<^verbatim>\<open>mutation.go\<close> stores three kinds of
  value: none, a container slice, and a map. A map is stored as the reference it is.
\<close>

datatype patch_value = NoValue | ContainersValue "Container slice" | MapValue mapref

record patchOperation =
  Op :: string
  Path :: string
  Value :: patch_value

subsection \<open>Library functions taken as parameters\<close>

text \<open>
  \<^verbatim>\<open>universalDeserializer.Decode\<close> fills a fresh \<^verbatim>\<open>Pod\<close>, allocating its maps in the
  store, or fails. \<^verbatim>\<open>json.Unmarshal\<close> into a \<^verbatim>\<open>map[string]interface{}\<close> yields a map
  (\<^verbatim>\<open>nil\<close> for the JSON text \<^verbatim>\<open>null\<close>) or fails; \<open>'v\<close> is the type of the decoded
  values. \<^verbatim>\<open>json.Marshal\<close> and SHA-256 complete the list. The template map is local to
  \<^verbatim>\<open>generateCacheKeyFromTemplate\<close> and shared with nobody, so it is passed by value.
\<close>

record 'v Library =
  Decode :: "string \<Rightarrow> heap \<Rightarrow> error + (Pod \<times> heap)"
  Unmarshal :: "string \<Rightarrow> error + (string, 'v) fmap option"
  Marshal :: "(string, 'v) fmap option \<Rightarrow> error + string"
  Sum256 :: "string \<Rightarrow> string"

text \<open>
  \<^verbatim>\<open>clientMgr.CacheStore().GetExecutionCache(key)\<close> returns a pointer to a record, which
  may be \<^verbatim>\<open>nil\<close>, and an error, which may be \<^verbatim>\<open>nil\<close>.
\<close>

type_synonym ClientManager = "string \<Rightarrow> ExecutionCache option \<times> error option"

subsection \<open>generateCacheKeyFromTemplate\<close>

definition template_exists :: "(string, 'v) fmap option \<Rightarrow> string \<Rightarrow> bool" where
  "template_exists m k = (case m of None \<Rightarrow> False | Some f \<Rightarrow> fmlookup f k \<noteq> None)"

definition template_delete :: "(string, 'v) fmap option \<Rightarrow> string \<Rightarrow> (string, 'v) fmap option" where
  "template_delete m k = (case m of None \<Rightarrow> None | Some f \<Rightarrow> Some (fmdrop k f))"

definition generateCacheKeyFromTemplate :: "'v Library \<Rightarrow> string \<Rightarrow> string \<times> error option" where
  "generateCacheKeyFromTemplate lib template =
     (case Unmarshal lib template of
        Inl err \<Rightarrow> ('''', Some err)
      | Inr templateMap \<Rightarrow>
          (let templateMap1 =
                 (if template_exists templateMap ArchiveLocationKey
                  then template_delete templateMap ArchiveLocationKey
                  else templateMap)
           in case Marshal lib templateMap1 of
                Inl err \<Rightarrow> ('''', Some err)
              | Inr b \<Rightarrow> (hex_EncodeToString (Sum256 lib b), None)))"

subsection \<open>isKFPArgoPod, isTFXPod, isValidPod\<close>

text \<open>
  The loop of \<^verbatim>\<open>isKFPArgoPod\<close> returns true at the first key that contains the marker
  and false after the last key; whatever the order of the visit, that is whether some key
  contains it.
\<close>

definition isKFPArgoPod :: "heap \<Rightarrow> mapref \<Rightarrow> string \<Rightarrow> bool" where
  "isKFPArgoPod h annotations podName =
     (if map_get h annotations ArgoWorkflowNodeName = None then False
      else fBex (map_keys h annotations) (\<lambda>k. strings_Contains k KFPAnnotation))"

fun collectMain :: "Container list \<Rightarrow> Container slice \<Rightarrow> Container slice" where
  "collectMain [] mainContainers = mainContainers"
| "collectMain (c # cs) mainContainers =
     collectMain cs
       (if Container.Name c \<noteq> '''' \<and> Container.Name c = ''main''
        then append_slice mainContainers c else mainContainers)"

definition isTFXPod :: "Container slice \<Rightarrow> bool exec" where
  "isTFXPod containers =
     (let mainContainers = collectMain (elems containers) None
      in if len mainContainers \<noteq> 1 then Returns False
         else case at mainContainers 0 of
                Panics p \<Rightarrow> Panics p
              | Returns mainContainer \<Rightarrow>
                  if len (Command mainContainer) \<noteq> 0
                  then (case at (Command mainContainer) (len (Command mainContainer) - 1) of
                          Panics p \<Rightarrow> Panics p
                        | Returns token \<Rightarrow> Returns (strings_HasSuffix token TFXPodSuffix))
                  else Returns False)"

definition isValidPod :: "heap \<Rightarrow> Pod \<Rightarrow> bool exec" where
  "isValidPod h pod =
     (let annotations = Annotations (ObjectMeta pod)
      in if annotations = None \<or> map_len h annotations = 0 then Returns False
         else if \<not> isKFPArgoPod h annotations (ObjectMeta.Name (ObjectMeta pod))
         then Returns False
         else (let containers = Containers (Spec pod)
               in if containers \<noteq> None \<and> len containers \<noteq> 0
                  then (case isTFXPod containers of
                          Panics p \<Rightarrow> Panics p
                        | Returns tfx \<Rightarrow> if tfx then Returns False else Returns True)
                  else Returns True))"

subsection \<open>MutatePodIfCached\<close>

definition dummyContainer :: Container where
  "dummyContainer = \<lparr>Container.Name = ''dummy'', Image = ''alpine'', Command = Some [''true'']\<rparr>"

text \<open>
  The block run when \<^verbatim>\<open>cachedExecution != nil\<close> (lines 102 to 125): two writes to the
  maps, the replace of the containers, and the remove of the init containers.
\<close>

definition cachedBlock ::
  "Pod \<Rightarrow> ExecutionCache \<Rightarrow> heap \<Rightarrow> patchOperation slice \<Rightarrow> (heap \<times> patchOperation slice) exec"
where
  "cachedBlock pod cachedExecution h patches =
     (let annotations = Annotations (ObjectMeta pod); labels = Labels (ObjectMeta pod)
      in case map_assign h annotations ArgoWorkflowOutputs (ExecutionOutput cachedExecution) of
           Panics p \<Rightarrow> Panics p
         | Returns h1 \<Rightarrow>
        (case map_assign h1 labels CacheIDLabelKey (strconv_FormatInt10 (sint (ID cachedExecution))) of
           Panics p \<Rightarrow> Panics p
         | Returns h2 \<Rightarrow>
        (let dummyContainers = Some [dummyContainer];
             patches1 = append_slice patches
               \<lparr>Op = ''replace'', Path = ''/spec/containers'', Value = ContainersValue dummyContainers\<rparr>;
             patches2 =
               (if InitContainers (Spec pod) \<noteq> None \<or> len (InitContainers (Spec pod)) \<noteq> 0
                then append_slice patches1
                       \<lparr>Op = ''remove'', Path = ''/spec/initContainers'', Value = NoValue\<rparr>
                else patches1)
         in Returns (h2, patches2))))"

text \<open>
  The result is the pair the Go function returns, with the store as the call leaves it.
  The \<^verbatim>\<open>Pod\<close> struct is a local variable that no statement assigns to after decoding.
  The locals \<^verbatim>\<open>annotations\<close> and \<^verbatim>\<open>labels\<close> hold the addresses of the pod's own maps.
  The error of the lookup (line 98) is logged and not read again, so only the record of
  the pair that \<^verbatim>\<open>GetExecutionCache\<close> returns is used.
\<close>

type_synonym outcome = "((patchOperation slice \<times> error option) \<times> heap) exec"

definition MutatePodIfCached :: "'v Library \<Rightarrow> ClientManager \<Rightarrow> AdmissionRequest \<Rightarrow> heap \<Rightarrow> outcome" where
  "MutatePodIfCached lib clientMgr req h0 =
     (if AdmissionRequest.Resource req \<noteq> podResource then Returns ((None, None), h0)
      else case Decode lib (Object_Raw req) h0 of
        Inl err \<Rightarrow> Returns ((None, Some (''could not deserialize pod object: '' @ err)), h0)
      | Inr (pod, h) \<Rightarrow>
       (case isValidPod h pod of
          Panics p \<Rightarrow> Panics p
        | Returns valid \<Rightarrow>
          if \<not> valid then Returns ((None, None), h)
          else
           (let patches = None;
                annotations = Annotations (ObjectMeta pod);
                labels = Labels (ObjectMeta pod)
            in case map_get h annotations ArgoWorkflowTemplate of
              None \<Rightarrow> Returns ((patches, None), h)
            | Some template \<Rightarrow>
             (case generateCacheKeyFromTemplate lib template of
                (executionHashKey, Some err) \<Rightarrow> Returns ((patches, None), h)
              | (executionHashKey, None) \<Rightarrow>
               (case map_assign h annotations ExecutionKey executionHashKey of
                  Panics p \<Rightarrow> Panics p
                | Returns h1 \<Rightarrow>
               (case map_assign h1 labels CacheIDLabelKey '''' of
                  Panics p \<Rightarrow> Panics p
                | Returns h2 \<Rightarrow>
               (case (case fst (clientMgr executionHashKey) of
                        None \<Rightarrow> Returns (h2, patches)
                      | Some cachedExecution \<Rightarrow> cachedBlock pod cachedExecution h2 patches) of
                  Panics p \<Rightarrow> Panics p
                | Returns (h3, patches1) \<Rightarrow>
                   (let patches2 = append_slice patches1
                          \<lparr>Op = OperationTypeAdd, Path = AnnotationPath, Value = MapValue annotations\<rparr>;
                        patches3 = append_slice patches2
                          \<lparr>Op = OperationTypeAdd, Path = LabelPath, Value = MapValue labels\<rparr>
                    in Returns ((patches3, None), h3)))))))))"

subsection \<open>Concrete requests\<close>

text \<open>
  The inputs on which the functions are run below. The library functions are given by
  what the real ones return on the texts that occur: the pod documents decode to the
  structs written out here, the template \<^verbatim>\<open>{}\<close> is the empty object, and the digests
  are the SHA-256 digests of the serialized templates. A decoded value is kept as its
  JSON text.
\<close>

definition empty_heap :: heap where
  "empty_heap = (\<lambda>a. fmempty)"

definition scenario_annotations :: strmap where
  "scenario_annotations =
     fmupd ArgoWorkflowNodeName ''n1''
       (fmupd ''pipelines.kubeflow.org/x'' ''y''
         (fmupd ArgoWorkflowTemplate ''{}'' fmempty))"

definition scenario_labels :: strmap where
  "scenario_labels = fmupd ''app'' ''demo'' fmempty"

definition scenario_pod :: "mapref \<Rightarrow> Container slice \<Rightarrow> Pod" where
  "scenario_pod labels initContainers =
     \<lparr>ObjectMeta = \<lparr>ObjectMeta.Name = ''p'', Annotations = Some 0, Labels = labels\<rparr>,
      Spec = \<lparr>InitContainers = initContainers,
              Containers = Some [\<lparr>Container.Name = ''main'', Image = ''busybox'',
                                  Command = Some [''echo'']\<rparr>]\<rparr>\<rparr>"

definition raw_pod :: string where
  \<open>raw_pod = ''{"apiVersion":"v1","kind":"Pod","metadata":{"name":"p","annotations":{"workflows.argoproj.io/node-name":"n1","pipelines.kubeflow.org/x":"y","workflows.argoproj.io/template":"{}"},"labels":{"app":"demo"}},"spec":{"containers":[{"name":"main","image":"busybox","command":["echo"]}]}}''\<close>

definition raw_pod_unlabelled :: string where
  \<open>raw_pod_unlabelled = ''{"apiVersion":"v1","kind":"Pod","metadata":{"name":"p","annotations":{"workflows.argoproj.io/node-name":"n1","pipelines.kubeflow.org/x":"y","workflows.argoproj.io/template":"{}"}},"spec":{"containers":[{"name":"main","image":"busybox","command":["echo"]}]}}''\<close>

definition raw_pod_empty_init :: string where
  \<open>raw_pod_empty_init = ''{"apiVersion":"v1","kind":"Pod","metadata":{"name":"p","annotations":{"workflows.argoproj.io/node-name":"n1","pipelines.kubeflow.org/x":"y","workflows.argoproj.io/template":"{}"},"labels":{"app":"demo"}},"spec":{"initContainers":[],"containers":[{"name":"main","image":"busybox","command":["echo"]}]}}''\<close>

definition scenario_Decode :: "string \<Rightarrow> heap \<Rightarrow> error + (Pod \<times> heap)" where
  "scenario_Decode raw h =
     (if raw = raw_pod
      then Inr (scenario_pod (Some 1) None, h(0 := scenario_annotations, 1 := scenario_labels))
      else if raw = raw_pod_unlabelled
      then Inr (scenario_pod None None, h(0 := scenario_annotations))
      else if raw = raw_pod_empty_init
      then Inr (scenario_pod (Some 1) (Some []),
                h(0 := scenario_annotations, 1 := scenario_labels))
      else Inl ''invalid character'')"

definition template_run_123 :: string where
  \<open>template_run_123 = ''{"name":"step","archiveLocation":{"key":"run-123"}}''\<close>

definition template_run_456 :: string where
  \<open>template_run_456 = ''{"name":"step","archiveLocation":{"key":"run-456"}}''\<close>

definition template_no_location :: string where
  \<open>template_no_location = ''{"name":"step"}''\<close>

definition template_deadline_exact :: string where
  \<open>template_deadline_exact = ''{"activeDeadlineSeconds":9007199254740992}''\<close>

definition template_deadline_next :: string where
  \<open>template_deadline_next = ''{"activeDeadlineSeconds":9007199254740993}''\<close>

definition parsed_template :: "string option \<Rightarrow> (string, string) fmap" where
  \<open>parsed_template run =
     (case run of
        None \<Rightarrow> fmupd ''name'' ''"step"'' fmempty
      | Some r \<Rightarrow>
          fmupd ''name'' ''"step"'' (fmupd ''archiveLocation'' (''{"key":"'' @ r @ ''"}'') fmempty))\<close>

text \<open>
  \<^verbatim>\<open>json.Unmarshal\<close> stores a JSON number in an \<^verbatim>\<open>interface{}\<close> as a \<^verbatim>\<open>float64\<close>. The
  integers \<open>2^53\<close> and \<open>2^53 + 1\<close> are read as the same \<^verbatim>\<open>float64\<close>, which
  \<^verbatim>\<open>json.Marshal\<close> writes as \<^verbatim>\<open>9007199254740992\<close>.
\<close>

definition parsed_deadline :: "(string, string) fmap" where
  "parsed_deadline = fmupd ''activeDeadlineSeconds'' ''9007199254740992'' fmempty"

definition scenario_Unmarshal :: "string \<Rightarrow> error + (string, string) fmap option" where
  "scenario_Unmarshal s =
     (if s = ''{}'' then Inr (Some fmempty)
      else if s = ''null'' then Inr None
      else if s = template_no_location then Inr (Some (parsed_template None))
      else if s = template_run_123 then Inr (Some (parsed_template (Some ''run-123'')))
      else if s = template_run_456 then Inr (Some (parsed_template (Some ''run-456'')))
      else if s = template_deadline_exact then Inr (Some parsed_deadline)
      else if s = template_deadline_next then Inr (Some parsed_deadline)
      else Inl ''invalid character'')"

text \<open>
  \<^verbatim>\<open>json.Marshal\<close> writes the keys of a map in sorted order; the keys that occur here are
  listed in that order.
\<close>

definition scenario_fields :: "(string, string) fmap \<Rightarrow> string list" where
  \<open>scenario_fields f =
     List.map_filter (\<lambda>k. map_option (\<lambda>v. ''"'' @ k @ ''":'' @ v) (fmlookup f k))
       [''activeDeadlineSeconds'', ''archiveLocation'', ''name'']\<close>

fun join_fields :: "string list \<Rightarrow> string" where
  "join_fields [] = []"
| "join_fields [x] = x"
| "join_fields (x # y # ys) = x @ '','' @ join_fields (y # ys)"

definition scenario_Marshal :: "(string, string) fmap option \<Rightarrow> error + string" where
  "scenario_Marshal m =
     (case m of
        None \<Rightarrow> Inr ''null''
      | Some f \<Rightarrow> Inr (''{'' @ join_fields (scenario_fields f) @ ''}''))"

definition scenario_Sum256 :: "string \<Rightarrow> string" where
  \<open>scenario_Sum256 b =
     (if b = ''{}''
      then [CHR 0x44, CHR 0x13, CHR 0x6F, CHR 0xA3, CHR 0x55, CHR 0xB3, CHR 0x67, CHR 0x8A,
        CHR 0x11, CHR 0x46, CHR 0xAD, CHR 0x16, CHR 0xF7, CHR 0xE8, CHR 0x64, CHR 0x9E,
        CHR 0x94, CHR 0xFB, CHR 0x4F, CHR 0xC2, CHR 0x1F, CHR 0xE7, CHR 0x7E, CHR 0x83,
        CHR 0x10, CHR 0xC0, CHR 0x60, CHR 0xF6, CHR 0x1C, CHR 0xAA, CHR 0xFF, CHR 0x8A]
      else if b = ''{"name":"step"}''
      then [CHR 0x46, CHR 0x47, CHR 0xEF, CHR 0xC5, CHR 0x51, CHR 0xAD, CHR 0xB1, CHR 0x6D,
        CHR 0x0D, CHR 0x2C, CHR 0x17, CHR 0xE4, CHR 0x0D, CHR 0x81, CHR 0x3D, CHR 0xE1,
        CHR 0xDE, CHR 0x96, CHR 0x91, CHR 0xDE, CHR 0xD6, CHR 0x62, CHR 0x40, CHR 0xCC,
        CHR 0xBA, CHR 0xF7, CHR 0xB8, CHR 0x11, CHR 0x1B, CHR 0x1D, CHR 0x1A, CHR 0x22]
      else if b = ''{"activeDeadlineSeconds":9007199254740992}''
      then [CHR 0x92, CHR 0x18, CHR 0xFC, CHR 0x99, CHR 0xFD, CHR 0x12, CHR 0x62, CHR 0x7D,
        CHR 0x59, CHR 0xEB, CHR 0x9B, CHR 0x9E, CHR 0x12, CHR 0x38, CHR 0x4E, CHR 0x15,
        CHR 0x8E, CHR 0x56, CHR 0xE2, CHR 0x2B, CHR 0xB2, CHR 0xB5, CHR 0x88, CHR 0xA9,
        CHR 0xAE, CHR 0x63, CHR 0xB7, CHR 0xC8, CHR 0xC5, CHR 0x8B, CHR 0xFE, CHR 0x7C]
      else [])\<close>

definition scenario_lib :: "string Library" where
  "scenario_lib =
     \<lparr>Decode = scenario_Decode, Unmarshal = scenario_Unmarshal,
      Marshal = scenario_Marshal, Sum256 = scenario_Sum256\<rparr>"

definition scenario_request :: "string \<Rightarrow> AdmissionRequest" where
  "scenario_request raw = \<lparr>AdmissionRequest.Resource = podResource, Object_Raw = raw\<rparr>"

definition scenario_record :: ExecutionCache where
  \<open>scenario_record = \<lparr>ID = 42, ExecutionOutput = ''{"exitCode":"0"}''\<rparr>\<close>

definition cache_miss :: ClientManager where
  "cache_miss key = (None, None)"

definition cache_hit :: ClientManager where
  "cache_hit key = (Some scenario_record, None)"

definition cache_error :: ClientManager where
  "cache_error key = (None, Some ''dial tcp: connection refused'')"

definition cache_record_and_error :: ClientManager where
  "cache_record_and_error key = (Some scenario_record, Some ''context deadline exceeded'')"

definition scenario_key :: string where
  "scenario_key = ''44136fa355b3678a1146ad16f7e8649e94fb4fc21fe77e8310c060f61caaff8a''"

definition scenario_heap :: heap where
  "scenario_heap = empty_heap(0 := scenario_annotations, 1 := scenario_labels)"

text \<open>The store after the call, on a miss and on a hit with \<open>scenario_record\<close>.\<close>

definition scenario_heap_miss :: heap where
  "scenario_heap_miss =
     empty_heap(0 := fmupd ExecutionKey scenario_key scenario_annotations,
                1 := fmupd CacheIDLabelKey '''' scenario_labels)"

definition scenario_heap_hit :: heap where
  "scenario_heap_hit =
     empty_heap(0 := fmupd ArgoWorkflowOutputs (ExecutionOutput scenario_record)
                      (fmupd ExecutionKey scenario_key scenario_annotations),
                1 := fmupd CacheIDLabelKey ''42'' (fmupd CacheIDLabelKey '''' scenario_labels))"

section \<open>Properties\<close>

subsection \<open>Slices, strings and maps\<close>

lemma elems_simps [simp]: "elems None = []" "elems (Some xs) = xs"
  by (simp_all add: elems_def)

text \<open>The two string functions compute the library's substring and suffix relations.\<close>

lemma strings_Contains_sublist: "strings_Contains s substr \<longleftrightarrow> sublist substr s"
  by (induction s) (auto simp: sublist_Cons_right)

lemma strings_HasSuffix_suffix: "strings_HasSuffix s suf \<longleftrightarrow> suffix suf s"
  unfolding strings_HasSuffix_def
proof
  assume "length suf \<le> length s \<and> drop (length s - length suf) s = suf"
  then have "s = take (length s - length suf) s @ suf"
    by (metis append_take_drop_id)
  then show "suffix suf s"
    by (metis suffixI)
next
  assume "suffix suf s"
  then obtain p where "s = p @ suf"
    by (auto simp: suffix_def)
  then show "length suf \<le> length s \<and> drop (length s - length suf) s = suf"
    by simp
qed

lemma map_len_zero:
  "map_len h m = 0 \<longleftrightarrow> (case m of None \<Rightarrow> True | Some a \<Rightarrow> h a = fmempty)"
proof (cases m)
  case None
  then show ?thesis by (simp add: map_len_def)
next
  case (Some a)
  have "fmdom (h a) = {||} \<longleftrightarrow> h a = fmempty"
  proof
    assume e: "fmdom (h a) = {||}"
    show "h a = fmempty"
    proof (rule fmap_ext)
      fix x
      have "x |\<notin>| fmdom (h a)" using e by simp
      then show "fmlookup (h a) x = fmlookup fmempty x" by (simp add: fmdom_notD)
    qed
  qed simp
  with Some show ?thesis by (simp add: map_len_def)
qed

lemma key_names_distinct:
  "ExecutionKey \<noteq> CacheIDLabelKey" "ExecutionKey \<noteq> ArgoWorkflowOutputs"
  "ArgoWorkflowOutputs \<noteq> CacheIDLabelKey"
  by (simp_all add: ExecutionKey_def CacheIDLabelKey_def ArgoWorkflowOutputs_def)

subsection \<open>The hexadecimal encoding is injective\<close>

lemma digit_char_inj:
  assumes "a < 16" "b < 16" "digit_char a = digit_char b"
  shows "a = b"
proof -
  have d: "distinct ''0123456789abcdef''" by simp
  have l: "length ''0123456789abcdef'' = 16" by simp
  from assms show ?thesis
    unfolding digit_char_def using nth_eq_iff_index_eq [OF d, of a b] l by simp
qed

lemma hex_byte_inj:
  assumes "[digit_char (of_char c div 16), digit_char (of_char c mod 16)]
         = [digit_char (of_char c' div 16), digit_char (of_char c' mod 16 :: nat)]"
  shows "c = c'"
proof -
  have b: "(of_char c :: nat) < 256" "(of_char c' :: nat) < 256"
    by (simp_all add: of_char_def)
  from b have h1: "(of_char c :: nat) div 16 < 16" by arith
  from b have h2: "(of_char c' :: nat) div 16 < 16" by arith
  have l1: "(of_char c :: nat) mod 16 < 16" by simp
  have l2: "(of_char c' :: nat) mod 16 < 16" by simp
  from assms have e: "digit_char (of_char c div 16) = digit_char (of_char c' div 16)"
    "digit_char (of_char c mod 16) = digit_char (of_char c' mod 16)"
    by simp_all
  have hi: "(of_char c :: nat) div 16 = of_char c' div 16"
    by (rule digit_char_inj [OF h1 h2 e(1)])
  have lo: "(of_char c :: nat) mod 16 = of_char c' mod 16"
    by (rule digit_char_inj [OF l1 l2 e(2)])
  from hi lo have "(of_char c :: nat) = of_char c'"
    by (metis div_mult_mod_eq)
  then show ?thesis by simp
qed

lemma hex_EncodeToString_inj:
  "hex_EncodeToString xs = hex_EncodeToString ys \<Longrightarrow> xs = ys"
proof (induction xs arbitrary: ys)
  case Nil
  then show ?case by (cases ys) (simp_all add: hex_EncodeToString_def)
next
  case (Cons x xs)
  then obtain y ys' where ys: "ys = y # ys'"
    by (cases ys) (simp_all add: hex_EncodeToString_def)
  with Cons.prems have "x = y" and "hex_EncodeToString xs = hex_EncodeToString ys'"
    by (auto simp: hex_EncodeToString_def intro: hex_byte_inj)
  with Cons.IH ys show ?case by simp
qed

text \<open>What \<^verbatim>\<open>generateCacheKeyFromTemplate\<close> serializes: the decoded object without the key.\<close>

lemma template_reduced:
  "(if template_exists (Some m) ArchiveLocationKey
    then template_delete (Some m) ArchiveLocationKey else Some m)
   = Some (fmdrop ArchiveLocationKey m)"
  by (simp add: template_exists_def template_delete_def fmdrop_idle fmdom_notI)

subsection \<open>The eligibility filter in closed form\<close>

text \<open>The loop of \<^verbatim>\<open>isTFXPod\<close> collects, in order, the containers named \<^verbatim>\<open>main\<close>.\<close>

lemma elems_collectMain:
  "elems (collectMain cs acc) = elems acc @ filter (\<lambda>c. Container.Name c = ''main'') cs"
  by (induction cs arbitrary: acc) (auto simp: append_slice_def)

lemma isTFXPod_total:
  "isTFXPod containers =
     Returns (case filter (\<lambda>c. Container.Name c = ''main'') (elems containers) of
                [c] \<Rightarrow> elems (Command c) \<noteq> []
                        \<and> strings_HasSuffix (last (elems (Command c))) TFXPodSuffix
              | _ \<Rightarrow> False)"
  by (auto simp: isTFXPod_def Let_def len_def at_def elems_collectMain last_conv_nth
           split: list.splits)

lemma isValidPod_total:
  "isValidPod h pod =
     Returns (Annotations (ObjectMeta pod) \<noteq> None
              \<and> map_len h (Annotations (ObjectMeta pod)) \<noteq> 0
              \<and> isKFPArgoPod h (Annotations (ObjectMeta pod)) (ObjectMeta.Name (ObjectMeta pod))
              \<and> (case isTFXPod (Containers (Spec pod)) of
                    Returns tfx \<Rightarrow> \<not> tfx
                  | Panics p \<Rightarrow> False))"
  by (auto simp: isValidPod_def Let_def isTFXPod_total len_def split: list.splits option.splits)

lemma isValidPod_annotations:
  "isValidPod h pod = Returns True \<Longrightarrow> \<exists>a. Annotations (ObjectMeta pod) = Some a"
  by (auto simp: isValidPod_total)

subsection \<open>When the call returns\<close>

text \<open>
  After a successful decoding the only statement that can panic is the first write to the
  label map: a pod that has a label map always gets a patch list and a nil error.
\<close>

lemma MutatePodIfCached_returns:
  assumes "Decode lib (Object_Raw req) h0 = Inr (pod, h)"
    and "Labels (ObjectMeta pod) \<noteq> None"
  shows "\<exists>patches h'. MutatePodIfCached lib clientMgr req h0 = Returns ((patches, None), h')"
proof (cases "isValidPod h pod = Returns True")
  case True
  then obtain a where "Annotations (ObjectMeta pod) = Some a"
    using isValidPod_annotations by blast
  with assms True show ?thesis
    by (auto simp: MutatePodIfCached_def Let_def map_assign_def cachedBlock_def
        split: option.splits prod.splits)
next
  case False
  with assms show ?thesis
    by (auto simp: MutatePodIfCached_def isValidPod_total)
qed

lemma MutatePodIfCached_panics_only_on_nil_labels:
  assumes "MutatePodIfCached lib clientMgr req h0 = Panics p"
  shows "p = NilMapAssignment
       \<and> (\<exists>pod h. Decode lib (Object_Raw req) h0 = Inr (pod, h)
                    \<and> Labels (ObjectMeta pod) = None)"
proof -
  from assms obtain pod h where dec: "Decode lib (Object_Raw req) h0 = Inr (pod, h)"
    by (auto simp: MutatePodIfCached_def split: if_splits sum.splits)
  have nil: "Labels (ObjectMeta pod) = None"
  proof (rule ccontr)
    assume "Labels (ObjectMeta pod) \<noteq> None"
    from MutatePodIfCached_returns [OF dec this, of clientMgr] assms show False
      by auto
  qed
  from assms dec nil have "p = NilMapAssignment"
    by (auto simp: MutatePodIfCached_def Let_def map_assign_def isValidPod_total
        split: if_splits option.splits prod.splits)
  with dec nil show ?thesis by blast
qed

subsection \<open>The concrete requests, evaluated\<close>

lemma scenario_key_derived:
  "generateCacheKeyFromTemplate scenario_lib ''{}'' = (scenario_key, None)"
  by (simp add: generateCacheKeyFromTemplate_def scenario_lib_def scenario_Unmarshal_def
      scenario_Marshal_def scenario_fields_def scenario_Sum256_def template_exists_def
      hex_EncodeToString_def digit_char_def scenario_key_def)

lemma scenario_pod_fields:
  "Annotations (ObjectMeta (scenario_pod labels initContainers)) = Some 0"
  "Labels (ObjectMeta (scenario_pod labels initContainers)) = labels"
  "InitContainers (Spec (scenario_pod labels initContainers)) = initContainers"
  "Containers (Spec (scenario_pod labels initContainers)) =
     Some [\<lparr>Container.Name = ''main'', Image = ''busybox'', Command = Some [''echo'']\<rparr>]"
  by (simp_all add: scenario_pod_def)

lemma scenario_isKFPArgoPod:
  "h 0 = scenario_annotations \<Longrightarrow> isKFPArgoPod h (Some 0) n"
  by (simp add: isKFPArgoPod_def map_get_def map_keys_def scenario_annotations_def
      ArgoWorkflowNodeName_def ArgoWorkflowTemplate_def KFPAnnotation_def)

lemma scenario_valid:
  "h 0 = scenario_annotations \<Longrightarrow>
     isValidPod h (scenario_pod labels initContainers) = Returns True"
  by (simp add: isValidPod_total scenario_pod_fields scenario_isKFPArgoPod map_len_zero
        isTFXPod_total strings_HasSuffix_def TFXPodSuffix_def)
     (simp add: scenario_annotations_def)

lemma scenario_template:
  "h 0 = scenario_annotations \<Longrightarrow> map_get h (Some 0) ArgoWorkflowTemplate = Some ''{}''"
  by (simp add: map_get_def scenario_annotations_def ArgoWorkflowNodeName_def
        ArgoWorkflowTemplate_def)

lemma raw_distinct:
  "raw_pod_unlabelled \<noteq> raw_pod" "raw_pod_empty_init \<noteq> raw_pod"
  "raw_pod_empty_init \<noteq> raw_pod_unlabelled"
  by (simp_all add: raw_pod_def raw_pod_unlabelled_def raw_pod_empty_init_def)

lemma scenario_unmarshal:
  "Unmarshal scenario_lib template_run_123 = Inr (Some (parsed_template (Some ''run-123'')))"
  "Unmarshal scenario_lib template_run_456 = Inr (Some (parsed_template (Some ''run-456'')))"
  "Unmarshal scenario_lib template_no_location = Inr (Some (parsed_template None))"
  "Unmarshal scenario_lib ''{}'' = Inr (Some fmempty)"
  "Unmarshal scenario_lib template_deadline_exact = Inr (Some parsed_deadline)"
  "Unmarshal scenario_lib template_deadline_next = Inr (Some parsed_deadline)"
  by (simp_all add: scenario_lib_def scenario_Unmarshal_def template_run_123_def
        template_run_456_def template_no_location_def template_deadline_exact_def
        template_deadline_next_def)

lemma scenario_reduced:
  "fmdrop ArchiveLocationKey (parsed_template (Some r)) = parsed_template None"
  "fmdrop ArchiveLocationKey (parsed_template None) = parsed_template None"
  "fmdrop ArchiveLocationKey fmempty = (fmempty :: (string, string) fmap)"
  by (simp_all add: parsed_template_def ArchiveLocationKey_def fmdrop_fmupd)

lemma scenario_marshal:
  "Marshal scenario_lib (Some (parsed_template None)) = Inr template_no_location"
  "Marshal scenario_lib (Some fmempty) = Inr ''{}''"
  by (simp_all add: scenario_lib_def scenario_Marshal_def scenario_fields_def
        parsed_template_def template_no_location_def)

lemmas scenario_simps =
  MutatePodIfCached_def Let_def scenario_request_def scenario_lib_def scenario_Decode_def
  raw_distinct scenario_pod_fields scenario_valid scenario_template
  scenario_key_derived [unfolded scenario_lib_def] map_assign_def cachedBlock_def
  append_slice_def len_def cache_miss_def cache_hit_def cache_error_def
  cache_record_and_error_def OperationTypeAdd_def AnnotationPath_def LabelPath_def
  scenario_record_def strconv_FormatInt10_def digit_char_def

lemma scenario_decode:
  "Decode scenario_lib (Object_Raw (scenario_request raw_pod)) empty_heap
     = Inr (scenario_pod (Some 1) None, scenario_heap)"
  by (simp add: scenario_lib_def scenario_request_def scenario_Decode_def scenario_heap_def)

text \<open>Scenario B of the spec: the labelled pod, nothing cached.\<close>

lemma scenario_miss_outcome:
  "MutatePodIfCached scenario_lib cache_miss (scenario_request raw_pod) empty_heap
     = Returns ((Some [\<lparr>Op = ''add'', Path = ''/metadata/annotations'', Value = MapValue (Some 0)\<rparr>,
                       \<lparr>Op = ''add'', Path = ''/metadata/labels'', Value = MapValue (Some 1)\<rparr>],
                 None), scenario_heap_miss)"
  by (simp add: scenario_simps scenario_heap_miss_def fun_eq_iff)

lemma scenario_error_outcome:
  "MutatePodIfCached scenario_lib cache_error (scenario_request raw_pod) empty_heap
     = Returns ((Some [\<lparr>Op = ''add'', Path = ''/metadata/annotations'', Value = MapValue (Some 0)\<rparr>,
                       \<lparr>Op = ''add'', Path = ''/metadata/labels'', Value = MapValue (Some 1)\<rparr>],
                 None), scenario_heap_miss)"
  by (simp add: scenario_simps scenario_heap_miss_def fun_eq_iff)

text \<open>Scenario C of the spec: the same pod, and the store returns record 42.\<close>

lemma scenario_hit_outcome:
  "MutatePodIfCached scenario_lib cache_hit (scenario_request raw_pod) empty_heap
     = Returns ((Some [\<lparr>Op = ''replace'', Path = ''/spec/containers'',
                         Value = ContainersValue (Some [dummyContainer])\<rparr>,
                       \<lparr>Op = ''add'', Path = ''/metadata/annotations'', Value = MapValue (Some 0)\<rparr>,
                       \<lparr>Op = ''add'', Path = ''/metadata/labels'', Value = MapValue (Some 1)\<rparr>],
                 None), scenario_heap_hit)"
  by (simp add: scenario_simps scenario_heap_hit_def fun_eq_iff)

lemma scenario_heap_reads:
  "map_get scenario_heap (Some 0) ExecutionKey = None"
  "map_get scenario_heap_miss (Some 0) ExecutionKey = Some scenario_key"
  "map_get scenario_heap_miss (Some 0) ArgoWorkflowNodeName = Some ''n1''"
  "map_get scenario_heap_miss (Some 0) ArgoWorkflowOutputs = None"
  "map_get scenario_heap_miss (Some 1) CacheIDLabelKey = Some ''''"
  "map_get scenario_heap_hit (Some 0) ExecutionKey = Some scenario_key"
  "map_get scenario_heap_hit (Some 0) ArgoWorkflowOutputs = Some (ExecutionOutput scenario_record)"
  "map_get scenario_heap_hit (Some 1) CacheIDLabelKey = Some ''42''"
  by (simp_all add: map_get_def scenario_heap_def scenario_heap_miss_def scenario_heap_hit_def
        scenario_annotations_def scenario_labels_def ExecutionKey_def CacheIDLabelKey_def
        ArgoWorkflowOutputs_def ArgoWorkflowNodeName_def ArgoWorkflowTemplate_def)

section \<open>The claims\<close>

subsection \<open>Eligibility\<close>

text \<open>
  Claim C10. For every pod with exactly one container named \<^verbatim>\<open>main\<close> whose command list
  is empty, the excluded-framework check answers that the pod is not excluded. The test of
  the last command token is guarded by the test that the command is not empty, so the
  check is total: on every container slice \<^verbatim>\<open>isTFXPod\<close> returns a boolean, and the
  two index expressions in it never leave the range of their slices.
\<close>

theorem isTFXPod_empty_command:
  "(\<exists>b. isTFXPod containers = Returns b)
   \<and> (\<forall>c. filter (\<lambda>c. Container.Name c = ''main'') (elems containers) = [c]
            \<and> len (Command c) = 0
          \<longrightarrow> isTFXPod containers = Returns False)"
  by (simp add: isTFXPod_total len_def)

text \<open>
  Claim C10, at a pod with a sidecar and one \<^verbatim>\<open>main\<close> container whose command is the
  empty slice.
\<close>

theorem isTFXPod_empty_command_witness:
  "isTFXPod (Some [\<lparr>Container.Name = ''wait'', Image = ''argoexec'',
                     Command = Some [''argoexec'', ''wait'']\<rparr>,
                   \<lparr>Container.Name = ''main'', Image = ''busybox'', Command = Some []\<rparr>])
     = Returns False"
  using isTFXPod_empty_command
          [of "Some [\<lparr>Container.Name = ''wait'', Image = ''argoexec'',
                       Command = Some [''argoexec'', ''wait'']\<rparr>,
                     \<lparr>Container.Name = ''main'', Image = ''busybox'', Command = Some []\<rparr>]"]
  by (simp add: len_def)

text \<open>
  Claim C6. The eligibility filter satisfies three properties. A pod with no annotations,
  the map being \<^verbatim>\<open>nil\<close> or empty, is not eligible. A pod whose annotations contain the
  workflow-node key and at least one key that contains the pipelines marker as a
  substring, and which has no container named \<^verbatim>\<open>main\<close>, is eligible. Such a pod with
  exactly one container named \<^verbatim>\<open>main\<close> whose last command token ends with the TFX
  entrypoint suffix is not eligible. Substring and suffix are the relations
  \<open>sublist\<close> and \<open>suffix\<close> on lists.
\<close>

theorem isValidPod_eligibility:
  "(Annotations (ObjectMeta pod) = None
      \<or> (\<exists>a. Annotations (ObjectMeta pod) = Some a \<and> h a = fmempty)
    \<longrightarrow> isValidPod h pod = Returns False)
   \<and> (ArgoWorkflowNodeName |\<in>| map_keys h (Annotations (ObjectMeta pod))
      \<and> (\<exists>k. k |\<in>| map_keys h (Annotations (ObjectMeta pod)) \<and> sublist KFPAnnotation k)
      \<and> (\<forall>c \<in> set (elems (Containers (Spec pod))). Container.Name c \<noteq> ''main'')
    \<longrightarrow> isValidPod h pod = Returns True)
   \<and> (ArgoWorkflowNodeName |\<in>| map_keys h (Annotations (ObjectMeta pod))
      \<and> (\<exists>k. k |\<in>| map_keys h (Annotations (ObjectMeta pod)) \<and> sublist KFPAnnotation k)
      \<and> (\<exists>c. filter (\<lambda>c. Container.Name c = ''main'') (elems (Containers (Spec pod))) = [c]
             \<and> elems (Command c) \<noteq> []
             \<and> suffix TFXPodSuffix (last (elems (Command c))))
    \<longrightarrow> isValidPod h pod = Returns False)"
proof (intro conjI impI)
  assume "Annotations (ObjectMeta pod) = None
      \<or> (\<exists>a. Annotations (ObjectMeta pod) = Some a \<and> h a = fmempty)"
  then show "isValidPod h pod = Returns False"
    by (auto simp: isValidPod_total map_len_zero)
next
  assume m: "ArgoWorkflowNodeName |\<in>| map_keys h (Annotations (ObjectMeta pod))
      \<and> (\<exists>k. k |\<in>| map_keys h (Annotations (ObjectMeta pod)) \<and> sublist KFPAnnotation k)
      \<and> (\<forall>c \<in> set (elems (Containers (Spec pod))). Container.Name c \<noteq> ''main'')"
  then have "filter (\<lambda>c. Container.Name c = ''main'') (elems (Containers (Spec pod))) = []"
    by (simp add: filter_empty_conv)
  with m show "isValidPod h pod = Returns True"
    by (auto simp: isValidPod_total map_len_zero isKFPArgoPod_def map_keys_def map_get_def
          isTFXPod_total strings_Contains_sublist fmlookup_dom_iff
          split: option.splits)
next
  assume m: "ArgoWorkflowNodeName |\<in>| map_keys h (Annotations (ObjectMeta pod))
      \<and> (\<exists>k. k |\<in>| map_keys h (Annotations (ObjectMeta pod)) \<and> sublist KFPAnnotation k)
      \<and> (\<exists>c. filter (\<lambda>c. Container.Name c = ''main'') (elems (Containers (Spec pod))) = [c]
             \<and> elems (Command c) \<noteq> []
             \<and> suffix TFXPodSuffix (last (elems (Command c))))"
  then show "isValidPod h pod = Returns False"
    by (auto simp: isValidPod_total isTFXPod_total strings_HasSuffix_suffix)
qed

text \<open>
  Claim C6, at three pods: one without annotations; one with the annotations of the
  scenario and only a sidecar container; one that also has a \<^verbatim>\<open>main\<close> container running
  the TFX entrypoint.
\<close>

theorem isValidPod_eligibility_witness:
  "isValidPod empty_heap
     \<lparr>ObjectMeta = \<lparr>ObjectMeta.Name = ''p'', Annotations = None, Labels = None\<rparr>,
      Spec = \<lparr>InitContainers = None, Containers = None\<rparr>\<rparr> = Returns False
   \<and> isValidPod (empty_heap(0 := scenario_annotations))
     \<lparr>ObjectMeta = \<lparr>ObjectMeta.Name = ''p'', Annotations = Some 0, Labels = None\<rparr>,
      Spec = \<lparr>InitContainers = None,
              Containers = Some [\<lparr>Container.Name = ''wait'', Image = ''argoexec'',
                                  Command = Some [''argoexec'', ''wait'']\<rparr>]\<rparr>\<rparr> = Returns True
   \<and> isValidPod (empty_heap(0 := scenario_annotations))
     \<lparr>ObjectMeta = \<lparr>ObjectMeta.Name = ''p'', Annotations = Some 0, Labels = None\<rparr>,
      Spec = \<lparr>InitContainers = None,
              Containers = Some [\<lparr>Container.Name = ''wait'', Image = ''argoexec'',
                                  Command = Some [''argoexec'', ''wait'']\<rparr>,
                                 \<lparr>Container.Name = ''main'', Image = ''tfx'',
                                  Command = Some [''python'',
                                    ''/tfx-src/tfx/orchestration/kubeflow/container_entrypoint.py'']\<rparr>]\<rparr>\<rparr>
       = Returns False"
proof -
  have s: "suffix TFXPodSuffix ''/tfx-src/tfx/orchestration/kubeflow/container_entrypoint.py''"
    unfolding strings_HasSuffix_suffix [symmetric]
    by (simp add: strings_HasSuffix_def TFXPodSuffix_def)
  have k: "sublist KFPAnnotation ''pipelines.kubeflow.org/x''"
    unfolding strings_Contains_sublist [symmetric] by (simp add: KFPAnnotation_def)
  have m: "ArgoWorkflowNodeName |\<in>| map_keys (empty_heap(0 := scenario_annotations)) (Some 0)"
    "''pipelines.kubeflow.org/x'' |\<in>| map_keys (empty_heap(0 := scenario_annotations)) (Some 0)"
    by (simp_all add: map_keys_def scenario_annotations_def)
  show ?thesis
    using isValidPod_eligibility
            [of "\<lparr>ObjectMeta = \<lparr>ObjectMeta.Name = ''p'', Annotations = None, Labels = None\<rparr>,
                  Spec = \<lparr>InitContainers = None, Containers = None\<rparr>\<rparr>" empty_heap]
      isValidPod_eligibility
            [of "\<lparr>ObjectMeta = \<lparr>ObjectMeta.Name = ''p'', Annotations = Some 0, Labels = None\<rparr>,
                  Spec = \<lparr>InitContainers = None,
                    Containers = Some [\<lparr>Container.Name = ''wait'', Image = ''argoexec'',
                                  Command = Some [''argoexec'', ''wait'']\<rparr>]\<rparr>\<rparr>"
                "empty_heap(0 := scenario_annotations)"]
      isValidPod_eligibility
            [of "\<lparr>ObjectMeta = \<lparr>ObjectMeta.Name = ''p'', Annotations = Some 0, Labels = None\<rparr>,
                  Spec = \<lparr>InitContainers = None,
                    Containers = Some [\<lparr>Container.Name = ''wait'', Image = ''argoexec'',
                                  Command = Some [''argoexec'', ''wait'']\<rparr>,
                                 \<lparr>Container.Name = ''main'', Image = ''tfx'',
                                  Command = Some [''python'',
                                    ''/tfx-src/tfx/orchestration/kubeflow/container_entrypoint.py'']\<rparr>]\<rparr>\<rparr>"
                "empty_heap(0 := scenario_annotations)"]
      s k m
    by auto
qed

subsection \<open>The cache key\<close>

text \<open>
  Claim C4. Two valid JSON templates that differ only in the value of the top-level
  \<^verbatim>\<open>archiveLocation\<close> field, one of them possibly lacking the field, get the same
  fingerprint. The templates are valid when \<^verbatim>\<open>json.Unmarshal\<close> decodes them to objects;
  they differ only in that field when the two objects have the same value, or none, under
  every other key.
\<close>

theorem generateCacheKeyFromTemplate_ignores_archiveLocation:
  assumes "Unmarshal lib t1 = Inr (Some m1)"
    and "Unmarshal lib t2 = Inr (Some m2)"
    and "\<forall>k. k \<noteq> ArchiveLocationKey \<longrightarrow> fmlookup m1 k = fmlookup m2 k"
  shows "generateCacheKeyFromTemplate lib t1 = generateCacheKeyFromTemplate lib t2"
proof -
  have drop: "fmdrop ArchiveLocationKey m1 = fmdrop ArchiveLocationKey m2"
    using assms(3) by (intro fmap_ext) simp
  have red: "(if template_exists (Some m) ArchiveLocationKey
              then template_delete (Some m) ArchiveLocationKey else Some m)
             = Some (fmdrop ArchiveLocationKey m)" for m :: "(string, 'a) fmap"
    by (simp add: template_exists_def template_delete_def fmdrop_idle fmdom_notI)
  show ?thesis
    unfolding generateCacheKeyFromTemplate_def Let_def assms(1,2) sum.case red drop ..
qed

text \<open>
  Claim C4, at Scenario A of the spec: the template of run 123, the template of run 456,
  and the template without the field; the fingerprint of all three is the SHA-256 digest
  of the serialized template without the field.
\<close>

theorem generateCacheKeyFromTemplate_ignores_archiveLocation_witness:
  "generateCacheKeyFromTemplate scenario_lib template_run_123
     = generateCacheKeyFromTemplate scenario_lib template_run_456
   \<and> generateCacheKeyFromTemplate scenario_lib template_run_123
     = generateCacheKeyFromTemplate scenario_lib template_no_location
   \<and> generateCacheKeyFromTemplate scenario_lib template_no_location
     = (''4647efc551adb16d0d2c17e40d813de1de9691ded66240ccbaf7b8111b1d1a22'', None)"
proof -
  have u: "Unmarshal scenario_lib template_run_123 = Inr (Some (parsed_template (Some ''run-123'')))"
    "Unmarshal scenario_lib template_run_456 = Inr (Some (parsed_template (Some ''run-456'')))"
    "Unmarshal scenario_lib template_no_location = Inr (Some (parsed_template None))"
    by (simp_all add: scenario_lib_def scenario_Unmarshal_def template_run_123_def
          template_run_456_def template_no_location_def)
  have k: "generateCacheKeyFromTemplate scenario_lib template_no_location
     = (''4647efc551adb16d0d2c17e40d813de1de9691ded66240ccbaf7b8111b1d1a22'', None)"
    by (simp add: generateCacheKeyFromTemplate_def u)
       (simp add: scenario_lib_def scenario_Marshal_def scenario_fields_def scenario_Sum256_def
          template_exists_def hex_EncodeToString_def digit_char_def ArchiveLocationKey_def
          parsed_template_def)
  show ?thesis
    using generateCacheKeyFromTemplate_ignores_archiveLocation [OF u(1) u(2)]
      generateCacheKeyFromTemplate_ignores_archiveLocation [OF u(1) u(3)] k
    by (simp add: ArchiveLocationKey_def parsed_template_def)
qed

text \<open>
  Claim C5 states that two templates that differ in any field other than
  \<^verbatim>\<open>archiveLocation\<close> always get different fingerprints. The code fails it at two
  templates that differ in the field \<^verbatim>\<open>activeDeadlineSeconds\<close>, \<open>2^53\<close> in one and
  \<open>2^53 + 1\<close> in the other: \<^verbatim>\<open>json.Unmarshal\<close> (line 148) decodes both numbers to the
  same \<^verbatim>\<open>float64\<close>, the two decoded objects are equal, and so are the fingerprints.
\<close>

theorem generateCacheKeyFromTemplate_merges_numbers:
  "template_deadline_exact \<noteq> template_deadline_next
   \<and> generateCacheKeyFromTemplate scenario_lib template_deadline_exact
       = (''9218fc99fd12627d59eb9b9e12384e158e56e22bb2b588a9ae63b7c8c58bfe7c'', None)
   \<and> generateCacheKeyFromTemplate scenario_lib template_deadline_next
       = (''9218fc99fd12627d59eb9b9e12384e158e56e22bb2b588a9ae63b7c8c58bfe7c'', None)"
proof -
  have m: "Marshal scenario_lib (Some parsed_deadline) = Inr template_deadline_exact"
    by (simp add: scenario_lib_def scenario_Marshal_def scenario_fields_def parsed_deadline_def
          template_deadline_exact_def)
  have r: "fmdrop ArchiveLocationKey parsed_deadline = parsed_deadline"
    by (simp add: parsed_deadline_def ArchiveLocationKey_def fmdrop_fmupd)
  have h: "hex_EncodeToString (Sum256 scenario_lib template_deadline_exact)
             = ''9218fc99fd12627d59eb9b9e12384e158e56e22bb2b588a9ae63b7c8c58bfe7c''"
    by (simp add: scenario_lib_def scenario_Sum256_def template_deadline_exact_def
          hex_EncodeToString_def digit_char_def)
  have n: "template_deadline_exact \<noteq> template_deadline_next"
    by (simp add: template_deadline_exact_def template_deadline_next_def)
  show ?thesis
    by (simp add: n generateCacheKeyFromTemplate_def Let_def scenario_unmarshal template_reduced
          r m h)
qed

text \<open>
  Claim C5, amended. \<^verbatim>\<open>generateCacheKeyFromTemplate\<close> is deterministic and, modulo
  \<^verbatim>\<open>json.Marshal\<close> and SHA-256, injective on the objects that \<^verbatim>\<open>json.Unmarshal\<close> decodes.
  Two valid templates whose decoded objects are identical after removing the top-level
  \<^verbatim>\<open>archiveLocation\<close> key always get the same result. Two valid templates whose decoded
  objects still differ after removing it both get a fingerprint, and the two fingerprints
  differ, whenever \<^verbatim>\<open>json.Marshal\<close> serializes the two reduced objects, to different
  byte strings, and SHA-256 does not collide on these two byte strings.
\<close>

theorem generateCacheKeyFromTemplate_injective_on_decoded_objects:
  assumes u1: "Unmarshal lib t1 = Inr (Some m1)"
    and u2: "Unmarshal lib t2 = Inr (Some m2)"
  shows "(fmdrop ArchiveLocationKey m1 = fmdrop ArchiveLocationKey m2 \<longrightarrow>
            generateCacheKeyFromTemplate lib t1 = generateCacheKeyFromTemplate lib t2)
       \<and> (fmdrop ArchiveLocationKey m1 \<noteq> fmdrop ArchiveLocationKey m2
          \<and> Marshal lib (Some (fmdrop ArchiveLocationKey m1)) = Inr b1
          \<and> Marshal lib (Some (fmdrop ArchiveLocationKey m2)) = Inr b2
          \<and> (b1 = b2 \<longrightarrow> fmdrop ArchiveLocationKey m1 = fmdrop ArchiveLocationKey m2)
          \<and> (Sum256 lib b1 = Sum256 lib b2 \<longrightarrow> b1 = b2) \<longrightarrow>
            snd (generateCacheKeyFromTemplate lib t1) = None
          \<and> snd (generateCacheKeyFromTemplate lib t2) = None
          \<and> fst (generateCacheKeyFromTemplate lib t1) \<noteq> fst (generateCacheKeyFromTemplate lib t2))"
proof (intro conjI impI)
  assume "fmdrop ArchiveLocationKey m1 = fmdrop ArchiveLocationKey m2"
  then show "generateCacheKeyFromTemplate lib t1 = generateCacheKeyFromTemplate lib t2"
    by (simp add: generateCacheKeyFromTemplate_def Let_def u1 u2 template_reduced)
next
  assume a: "fmdrop ArchiveLocationKey m1 \<noteq> fmdrop ArchiveLocationKey m2
          \<and> Marshal lib (Some (fmdrop ArchiveLocationKey m1)) = Inr b1
          \<and> Marshal lib (Some (fmdrop ArchiveLocationKey m2)) = Inr b2
          \<and> (b1 = b2 \<longrightarrow> fmdrop ArchiveLocationKey m1 = fmdrop ArchiveLocationKey m2)
          \<and> (Sum256 lib b1 = Sum256 lib b2 \<longrightarrow> b1 = b2)"
  have k1: "generateCacheKeyFromTemplate lib t1 = (hex_EncodeToString (Sum256 lib b1), None)"
    using a by (simp add: generateCacheKeyFromTemplate_def Let_def u1 template_reduced)
  have k2: "generateCacheKeyFromTemplate lib t2 = (hex_EncodeToString (Sum256 lib b2), None)"
    using a by (simp add: generateCacheKeyFromTemplate_def Let_def u2 template_reduced)
  show "snd (generateCacheKeyFromTemplate lib t1) = None" by (simp add: k1)
  show "snd (generateCacheKeyFromTemplate lib t2) = None" by (simp add: k2)
  show "fst (generateCacheKeyFromTemplate lib t1) \<noteq> fst (generateCacheKeyFromTemplate lib t2)"
  proof
    assume "fst (generateCacheKeyFromTemplate lib t1) = fst (generateCacheKeyFromTemplate lib t2)"
    then have "hex_EncodeToString (Sum256 lib b1) = hex_EncodeToString (Sum256 lib b2)"
      by (simp add: k1 k2)
    then have "Sum256 lib b1 = Sum256 lib b2" by (rule hex_EncodeToString_inj)
    with a show False by blast
  qed
qed

text \<open>
  Claim C5 as amended, at the templates of runs 123 and 456, which get the same
  fingerprint, and at the template without the field against the empty object, which get
  different ones.
\<close>

theorem generateCacheKeyFromTemplate_injective_on_decoded_objects_witness:
  "generateCacheKeyFromTemplate scenario_lib template_run_123
     = generateCacheKeyFromTemplate scenario_lib template_run_456
   \<and> fst (generateCacheKeyFromTemplate scenario_lib template_no_location)
       \<noteq> fst (generateCacheKeyFromTemplate scenario_lib ''{}'')"
proof -
  have d: "parsed_template None \<noteq> fmempty"
    by (simp add: parsed_template_def)
  have s: "Sum256 scenario_lib template_no_location \<noteq> Sum256 scenario_lib ''{}''"
    by (simp add: scenario_lib_def scenario_Sum256_def template_no_location_def)
  have n: "template_no_location \<noteq> ''{}''"
    by (simp add: template_no_location_def)
  show ?thesis
    using generateCacheKeyFromTemplate_injective_on_decoded_objects [OF scenario_unmarshal(1) scenario_unmarshal(2)]
      generateCacheKeyFromTemplate_injective_on_decoded_objects [OF scenario_unmarshal(3) scenario_unmarshal(4), of template_no_location "''{}''"]
      d s n
    by (simp add: scenario_reduced scenario_marshal)
qed

subsection \<open>The patch list\<close>

text \<open>
  Claim C7. For every eligible pod with a derived fingerprint: on a cache hit the returned
  patch list holds exactly one operation at the container-list path, a replace whose value
  is the one-element list with the placeholder container; on a cache miss the returned
  patch list holds no operation at the container-list path or at the init-container-list
  path. A hit is a lookup that returns a record. The call returns such a list whenever the
  pod has a label map.
\<close>

theorem MutatePodIfCached_container_patches:
  assumes res: "AdmissionRequest.Resource req = podResource"
    and dec: "Decode lib (Object_Raw req) h0 = Inr (pod, h)"
    and valid: "isValidPod h pod = Returns True"
    and tmpl: "map_get h (Annotations (ObjectMeta pod)) ArgoWorkflowTemplate = Some template"
    and key: "generateCacheKeyFromTemplate lib template = (key, None)"
  shows "(Labels (ObjectMeta pod) \<noteq> None \<longrightarrow>
           (\<exists>patches h'. MutatePodIfCached lib clientMgr req h0 = Returns ((patches, None), h')))
       \<and> (\<forall>patches err h'.
             MutatePodIfCached lib clientMgr req h0 = Returns ((patches, err), h') \<longrightarrow>
               (fst (clientMgr key) \<noteq> None \<longrightarrow>
                  filter (\<lambda>p. Path p = ''/spec/containers'') (elems patches) =
                    [\<lparr>Op = ''replace'', Path = ''/spec/containers'',
                      Value = ContainersValue (Some [dummyContainer])\<rparr>])
             \<and> (fst (clientMgr key) = None \<longrightarrow>
                  (\<forall>p \<in> set (elems patches).
                     Path p \<noteq> ''/spec/containers'' \<and> Path p \<noteq> ''/spec/initContainers'')))"
proof -
  from valid obtain a where a: "Annotations (ObjectMeta pod) = Some a"
    using isValidPod_annotations by blast
  show ?thesis
    using res dec valid tmpl key a
    by (auto simp: MutatePodIfCached_def Let_def map_assign_def cachedBlock_def append_slice_def
          AnnotationPath_def LabelPath_def
        split: option.splits)
qed

text \<open>
  Claim C7, at Scenario C of the spec: the labelled pod and a store that returns record 42.
\<close>

theorem MutatePodIfCached_container_patches_witness:
  "MutatePodIfCached scenario_lib cache_hit (scenario_request raw_pod) empty_heap
     = Returns ((Some [\<lparr>Op = ''replace'', Path = ''/spec/containers'',
                         Value = ContainersValue (Some [dummyContainer])\<rparr>,
                       \<lparr>Op = ''add'', Path = ''/metadata/annotations'', Value = MapValue (Some 0)\<rparr>,
                       \<lparr>Op = ''add'', Path = ''/metadata/labels'', Value = MapValue (Some 1)\<rparr>],
                 None), scenario_heap_hit)
   \<and> fst (cache_hit scenario_key) = Some scenario_record
   \<and> filter (\<lambda>p. Path p = ''/spec/containers'')
        [\<lparr>Op = ''replace'', Path = ''/spec/containers'',
           Value = ContainersValue (Some [dummyContainer])\<rparr>,
         \<lparr>Op = ''add'', Path = ''/metadata/annotations'', Value = MapValue (Some 0)\<rparr>,
         \<lparr>Op = ''add'', Path = ''/metadata/labels'', Value = MapValue (Some 1)\<rparr>]
      = [\<lparr>Op = ''replace'', Path = ''/spec/containers'',
           Value = ContainersValue (Some [dummyContainer])\<rparr>]"
  using MutatePodIfCached_container_patches
          [of "scenario_request raw_pod" scenario_lib empty_heap "scenario_pod (Some 1) None"
              scenario_heap "''{}''" scenario_key cache_hit]
    scenario_decode scenario_key_derived scenario_hit_outcome
  by (simp add: scenario_request_def scenario_valid scenario_template scenario_pod_fields
        cache_hit_def scenario_heap_def)

text \<open>
  Claim C9. Whenever \<^verbatim>\<open>MutatePodIfCached\<close> returns a patch list that is not empty, the
  list ends with exactly two add operations, the first at the annotations path and the
  second at the labels path. The value of the first is the pod's annotation map, which
  maps the execution cache-key annotation to the derived fingerprint; the value of the
  second is the pod's label map, which maps the cache-id label to the empty string on a
  miss and to the decimal string of the record's ID on a hit. Every operation before
  these two is not an add and is at the container-list or the init-container-list path.
\<close>

theorem MutatePodIfCached_patch_order:
  assumes run: "MutatePodIfCached lib clientMgr req h0 = Returns ((patches, err), h')"
    and nonempty: "elems patches \<noteq> []"
  shows "\<exists>pod h a l template key pre.
           Decode lib (Object_Raw req) h0 = Inr (pod, h)
         \<and> Annotations (ObjectMeta pod) = Some a \<and> Labels (ObjectMeta pod) = Some l
         \<and> map_get h (Some a) ArgoWorkflowTemplate = Some template
         \<and> generateCacheKeyFromTemplate lib template = (key, None)
         \<and> elems patches =
             pre @ [\<lparr>Op = OperationTypeAdd, Path = AnnotationPath, Value = MapValue (Some a)\<rparr>,
                    \<lparr>Op = OperationTypeAdd, Path = LabelPath, Value = MapValue (Some l)\<rparr>]
         \<and> (\<forall>p \<in> set pre. Op p \<noteq> OperationTypeAdd
                \<and> (Path p = ''/spec/containers'' \<or> Path p = ''/spec/initContainers''))
         \<and> map_get h' (Some a) ExecutionKey = Some key
         \<and> map_get h' (Some l) CacheIDLabelKey =
             Some (case fst (clientMgr key) of
                     None \<Rightarrow> ''''
                   | Some cachedExecution \<Rightarrow> strconv_FormatInt10 (sint (ID cachedExecution)))"
proof -
  from run nonempty have res: "AdmissionRequest.Resource req = podResource"
    by (auto simp: MutatePodIfCached_def split: if_splits)
  from run nonempty res obtain pod h where dec: "Decode lib (Object_Raw req) h0 = Inr (pod, h)"
    by (auto simp: MutatePodIfCached_def split: sum.splits)
  from run nonempty res dec have valid: "isValidPod h pod = Returns True"
    by (auto simp: MutatePodIfCached_def isValidPod_total split: if_splits)
  then obtain a where a: "Annotations (ObjectMeta pod) = Some a"
    using isValidPod_annotations by blast
  from run nonempty res dec valid a obtain template
    where tmpl: "map_get h (Some a) ArgoWorkflowTemplate = Some template"
    by (auto simp: MutatePodIfCached_def Let_def split: option.splits)
  from run nonempty res dec valid a tmpl obtain key
    where key: "generateCacheKeyFromTemplate lib template = (key, None)"
    by (cases "generateCacheKeyFromTemplate lib template")
       (auto simp: MutatePodIfCached_def Let_def split: option.splits)
  from run res dec valid a tmpl key obtain l where l: "Labels (ObjectMeta pod) = Some l"
    by (cases "Labels (ObjectMeta pod)") (auto simp: MutatePodIfCached_def Let_def map_assign_def)
  show ?thesis
  proof (cases "fst (clientMgr key)")
    case None
    with run res dec valid a tmpl key l key_names_distinct show ?thesis
      by (auto simp: MutatePodIfCached_def Let_def map_assign_def append_slice_def map_get_def)
  next
    case (Some cachedExecution)
    with run res dec valid a tmpl key l key_names_distinct show ?thesis
      by (auto simp: MutatePodIfCached_def Let_def map_assign_def append_slice_def map_get_def
            cachedBlock_def OperationTypeAdd_def)
  qed
qed

text \<open>
  Claim C9, at Scenario C of the spec: the annotation map at address 0 holds the
  fingerprint and the label map at address 1 holds the decimal string of 42.
\<close>

theorem MutatePodIfCached_patch_order_witness:
  "MutatePodIfCached scenario_lib cache_hit (scenario_request raw_pod) empty_heap
     = Returns ((Some [\<lparr>Op = ''replace'', Path = ''/spec/containers'',
                         Value = ContainersValue (Some [dummyContainer])\<rparr>,
                       \<lparr>Op = ''add'', Path = ''/metadata/annotations'', Value = MapValue (Some 0)\<rparr>,
                       \<lparr>Op = ''add'', Path = ''/metadata/labels'', Value = MapValue (Some 1)\<rparr>],
                 None), scenario_heap_hit)
   \<and> map_get scenario_heap_hit (Some 0) ExecutionKey = Some scenario_key
   \<and> map_get scenario_heap_hit (Some 1) CacheIDLabelKey
       = Some (strconv_FormatInt10 (sint (ID scenario_record)))
   \<and> strconv_FormatInt10 (sint (ID scenario_record)) = ''42''"
  using MutatePodIfCached_patch_order [OF scenario_hit_outcome]
    scenario_decode scenario_key_derived scenario_hit_outcome
  by (auto simp: scenario_request_def scenario_pod_fields scenario_template cache_hit_def
        scenario_heap_def scenario_record_def strconv_FormatInt10_def digit_char_def)

subsection \<open>Writes to the pod's maps\<close>

text \<open>
  Claim C3 states that \<^verbatim>\<open>MutatePodIfCached\<close> never mutates the pod: its annotation and
  label maps are the same after the call as before. The code fails it at Scenario B.
  Decoding gives the pod an annotation map at address 0 without the cache-key annotation;
  \<^verbatim>\<open>annotations\<close> is that same map, the assignment of line 93 writes to it, and after
  the call the pod's annotation map holds the fingerprint.
\<close>

theorem MutatePodIfCached_writes_annotations_in_place:
  "Decode scenario_lib (Object_Raw (scenario_request raw_pod)) empty_heap
     = Inr (scenario_pod (Some 1) None, scenario_heap)
   \<and> Annotations (ObjectMeta (scenario_pod (Some 1) None)) = Some 0
   \<and> map_get scenario_heap (Some 0) ExecutionKey = None
   \<and> MutatePodIfCached scenario_lib cache_miss (scenario_request raw_pod) empty_heap
     = Returns ((Some [\<lparr>Op = ''add'', Path = ''/metadata/annotations'', Value = MapValue (Some 0)\<rparr>,
                       \<lparr>Op = ''add'', Path = ''/metadata/labels'', Value = MapValue (Some 1)\<rparr>],
                 None), scenario_heap_miss)
   \<and> map_get scenario_heap_miss (Some 0) ExecutionKey = Some scenario_key"
  by (simp add: scenario_decode scenario_miss_outcome scenario_pod_fields scenario_heap_reads)

text \<open>
  Claim C3, amended. \<^verbatim>\<open>MutatePodIfCached\<close> changes the pod only in its annotation map
  and its label map: every other map object is the same after the call as before, and in
  every map every entry under a key other than the cache-key, outputs and cache-id keys is
  the same. When the request is not for a pod, when decoding fails, and whenever the
  returned patch list is empty, no map is changed at all. When the returned patch list is
  not empty, the two maps have been updated in place: the annotation map holds the derived
  fingerprint under the cache-key annotation and, under the outputs annotation, the
  record's output on a hit and what it held before on a miss; the label map holds under
  the cache-id label the empty string on a miss and the decimal string of the record's ID
  on a hit; the cache-id entry of the annotation map and the cache-key and outputs entries
  of the label map are what they were; and the list holds the two add operations whose
  values are these same two maps.
\<close>

theorem MutatePodIfCached_frame:
  assumes run: "MutatePodIfCached lib clientMgr req h0 = Returns ((patches, err), h')"
  shows "(AdmissionRequest.Resource req \<noteq> podResource \<longrightarrow> h' = h0)
       \<and> (\<forall>e. Decode lib (Object_Raw req) h0 = Inl e \<longrightarrow> h' = h0)
       \<and> (\<forall>pod h. AdmissionRequest.Resource req = podResource
              \<and> Decode lib (Object_Raw req) h0 = Inr (pod, h) \<longrightarrow>
             (elems patches = [] \<longrightarrow> h' = h)
           \<and> (\<forall>a. Some a \<noteq> Annotations (ObjectMeta pod) \<and> Some a \<noteq> Labels (ObjectMeta pod)
                  \<longrightarrow> h' a = h a)
           \<and> (\<forall>a k. k \<noteq> ExecutionKey \<and> k \<noteq> ArgoWorkflowOutputs \<and> k \<noteq> CacheIDLabelKey
                  \<longrightarrow> fmlookup (h' a) k = fmlookup (h a) k)
           \<and> (elems patches \<noteq> [] \<longrightarrow>
                (\<exists>a l template key.
                    Annotations (ObjectMeta pod) = Some a \<and> Labels (ObjectMeta pod) = Some l
                  \<and> map_get h (Some a) ArgoWorkflowTemplate = Some template
                  \<and> generateCacheKeyFromTemplate lib template = (key, None)
                  \<and> fmlookup (h' a) ExecutionKey = Some key
                  \<and> fmlookup (h' a) ArgoWorkflowOutputs =
                      (case fst (clientMgr key) of
                         None \<Rightarrow> fmlookup (h a) ArgoWorkflowOutputs
                       | Some cachedExecution \<Rightarrow> Some (ExecutionOutput cachedExecution))
                  \<and> fmlookup (h' l) CacheIDLabelKey =
                      Some (case fst (clientMgr key) of
                              None \<Rightarrow> ''''
                            | Some cachedExecution \<Rightarrow>
                                strconv_FormatInt10 (sint (ID cachedExecution)))
                  \<and> (a \<noteq> l \<longrightarrow>
                        fmlookup (h' a) CacheIDLabelKey = fmlookup (h a) CacheIDLabelKey
                      \<and> fmlookup (h' l) ExecutionKey = fmlookup (h l) ExecutionKey
                      \<and> fmlookup (h' l) ArgoWorkflowOutputs = fmlookup (h l) ArgoWorkflowOutputs)
                  \<and> \<lparr>Op = OperationTypeAdd, Path = AnnotationPath, Value = MapValue (Some a)\<rparr>
                      \<in> set (elems patches)
                  \<and> \<lparr>Op = OperationTypeAdd, Path = LabelPath, Value = MapValue (Some l)\<rparr>
                      \<in> set (elems patches))))"
proof (intro conjI allI impI)
  assume "AdmissionRequest.Resource req \<noteq> podResource"
  with run show "h' = h0" by (simp add: MutatePodIfCached_def)
next
  fix e assume "Decode lib (Object_Raw req) h0 = Inl e"
  with run show "h' = h0" by (simp add: MutatePodIfCached_def split: if_splits)
next
  fix pod h
  assume d: "AdmissionRequest.Resource req = podResource
              \<and> Decode lib (Object_Raw req) h0 = Inr (pod, h)"
  assume "elems patches = []"
  with run d show "h' = h"
    by (auto simp: MutatePodIfCached_def Let_def map_assign_def append_slice_def cachedBlock_def
          isValidPod_total
        split: if_splits option.splits prod.splits)
next
  fix pod h a
  assume d: "AdmissionRequest.Resource req = podResource
              \<and> Decode lib (Object_Raw req) h0 = Inr (pod, h)"
  assume "Some a \<noteq> Annotations (ObjectMeta pod) \<and> Some a \<noteq> Labels (ObjectMeta pod)"
  with run d show "h' a = h a"
    by (auto simp: MutatePodIfCached_def Let_def map_assign_def append_slice_def cachedBlock_def
          isValidPod_total
        split: if_splits option.splits prod.splits)
next
  fix pod h a k
  assume d: "AdmissionRequest.Resource req = podResource
              \<and> Decode lib (Object_Raw req) h0 = Inr (pod, h)"
  assume "k \<noteq> ExecutionKey \<and> k \<noteq> ArgoWorkflowOutputs \<and> k \<noteq> CacheIDLabelKey"
  with run d show "fmlookup (h' a) k = fmlookup (h a) k"
    by (auto simp: MutatePodIfCached_def Let_def map_assign_def append_slice_def cachedBlock_def
          isValidPod_total
        split: if_splits option.splits prod.splits)
next
  fix pod h
  assume d: "AdmissionRequest.Resource req = podResource
              \<and> Decode lib (Object_Raw req) h0 = Inr (pod, h)"
  assume nonempty: "elems patches \<noteq> []"
  from d have res: "AdmissionRequest.Resource req = podResource"
    and dec: "Decode lib (Object_Raw req) h0 = Inr (pod, h)" by simp_all
  from run nonempty res dec have valid: "isValidPod h pod = Returns True"
    by (auto simp: MutatePodIfCached_def isValidPod_total split: if_splits)
  then obtain a where a: "Annotations (ObjectMeta pod) = Some a"
    using isValidPod_annotations by blast
  from run nonempty res dec valid a obtain template
    where tmpl: "map_get h (Some a) ArgoWorkflowTemplate = Some template"
    by (auto simp: MutatePodIfCached_def Let_def split: option.splits)
  from run nonempty res dec valid a tmpl obtain key
    where key: "generateCacheKeyFromTemplate lib template = (key, None)"
    by (cases "generateCacheKeyFromTemplate lib template")
       (auto simp: MutatePodIfCached_def Let_def split: option.splits)
  from run res dec valid a tmpl key obtain l where l: "Labels (ObjectMeta pod) = Some l"
    by (cases "Labels (ObjectMeta pod)") (auto simp: MutatePodIfCached_def Let_def map_assign_def)
  have written:
    "fmlookup (h' a) ExecutionKey = Some key
     \<and> fmlookup (h' a) ArgoWorkflowOutputs =
         (case fst (clientMgr key) of
            None \<Rightarrow> fmlookup (h a) ArgoWorkflowOutputs
          | Some cachedExecution \<Rightarrow> Some (ExecutionOutput cachedExecution))
     \<and> fmlookup (h' l) CacheIDLabelKey =
         Some (case fst (clientMgr key) of
                 None \<Rightarrow> ''''
               | Some cachedExecution \<Rightarrow> strconv_FormatInt10 (sint (ID cachedExecution)))
     \<and> (a \<noteq> l \<longrightarrow>
           fmlookup (h' a) CacheIDLabelKey = fmlookup (h a) CacheIDLabelKey
         \<and> fmlookup (h' l) ExecutionKey = fmlookup (h l) ExecutionKey
         \<and> fmlookup (h' l) ArgoWorkflowOutputs = fmlookup (h l) ArgoWorkflowOutputs)
     \<and> \<lparr>Op = OperationTypeAdd, Path = AnnotationPath, Value = MapValue (Some a)\<rparr>
         \<in> set (elems patches)
     \<and> \<lparr>Op = OperationTypeAdd, Path = LabelPath, Value = MapValue (Some l)\<rparr>
         \<in> set (elems patches)"
  proof (cases "fst (clientMgr key)")
    case None
    with run res dec valid a tmpl key l key_names_distinct show ?thesis
      by (auto simp: MutatePodIfCached_def Let_def map_assign_def append_slice_def)
  next
    case (Some cachedExecution)
    with run res dec valid a tmpl key l key_names_distinct show ?thesis
      by (auto simp: MutatePodIfCached_def Let_def map_assign_def append_slice_def
            cachedBlock_def)
  qed
  with a l tmpl key
  show "\<exists>a l template key.
          Annotations (ObjectMeta pod) = Some a \<and> Labels (ObjectMeta pod) = Some l
        \<and> map_get h (Some a) ArgoWorkflowTemplate = Some template
        \<and> generateCacheKeyFromTemplate lib template = (key, None)
        \<and> fmlookup (h' a) ExecutionKey = Some key
        \<and> fmlookup (h' a) ArgoWorkflowOutputs =
            (case fst (clientMgr key) of
               None \<Rightarrow> fmlookup (h a) ArgoWorkflowOutputs
             | Some cachedExecution \<Rightarrow> Some (ExecutionOutput cachedExecution))
        \<and> fmlookup (h' l) CacheIDLabelKey =
            Some (case fst (clientMgr key) of
                    None \<Rightarrow> ''''
                  | Some cachedExecution \<Rightarrow>
                      strconv_FormatInt10 (sint (ID cachedExecution)))
        \<and> (a \<noteq> l \<longrightarrow>
              fmlookup (h' a) CacheIDLabelKey = fmlookup (h a) CacheIDLabelKey
            \<and> fmlookup (h' l) ExecutionKey = fmlookup (h l) ExecutionKey
            \<and> fmlookup (h' l) ArgoWorkflowOutputs = fmlookup (h l) ArgoWorkflowOutputs)
        \<and> \<lparr>Op = OperationTypeAdd, Path = AnnotationPath, Value = MapValue (Some a)\<rparr>
            \<in> set (elems patches)
        \<and> \<lparr>Op = OperationTypeAdd, Path = LabelPath, Value = MapValue (Some l)\<rparr>
            \<in> set (elems patches)"
    by blast
qed

text \<open>
  Claim C3 as amended, at Scenario B: the map object at address 2 belongs to nobody and is
  left alone, the node-name annotation is left alone, the fingerprint has been written
  into the annotation map and the empty cache id into the label map, and nothing else.
\<close>

theorem MutatePodIfCached_frame_witness:
  "MutatePodIfCached scenario_lib cache_miss (scenario_request raw_pod) empty_heap
     = Returns ((Some [\<lparr>Op = ''add'', Path = ''/metadata/annotations'', Value = MapValue (Some 0)\<rparr>,
                       \<lparr>Op = ''add'', Path = ''/metadata/labels'', Value = MapValue (Some 1)\<rparr>],
                 None), scenario_heap_miss)
   \<and> scenario_heap_miss 2 = scenario_heap 2
   \<and> fmlookup (scenario_heap_miss 0) ArgoWorkflowNodeName
       = fmlookup (scenario_heap 0) ArgoWorkflowNodeName
   \<and> fmlookup (scenario_heap_miss 0) ExecutionKey = Some scenario_key
   \<and> fmlookup (scenario_heap_miss 0) ArgoWorkflowOutputs
       = fmlookup (scenario_heap 0) ArgoWorkflowOutputs
   \<and> fmlookup (scenario_heap_miss 1) CacheIDLabelKey = Some ''''
   \<and> fmlookup (scenario_heap_miss 1) ExecutionKey = fmlookup (scenario_heap 1) ExecutionKey"
proof -
  have frame:
    "(\<forall>a. Some a \<noteq> Some 0 \<and> Some a \<noteq> Some 1 \<longrightarrow> scenario_heap_miss a = scenario_heap a)
     \<and> (\<forall>a k. k \<noteq> ExecutionKey \<and> k \<noteq> ArgoWorkflowOutputs \<and> k \<noteq> CacheIDLabelKey
            \<longrightarrow> fmlookup (scenario_heap_miss a) k = fmlookup (scenario_heap a) k)
     \<and> (\<exists>template key.
            map_get scenario_heap (Some 0) ArgoWorkflowTemplate = Some template
          \<and> generateCacheKeyFromTemplate scenario_lib template = (key, None)
          \<and> fmlookup (scenario_heap_miss 0) ExecutionKey = Some key
          \<and> fmlookup (scenario_heap_miss 0) ArgoWorkflowOutputs
              = fmlookup (scenario_heap 0) ArgoWorkflowOutputs
          \<and> fmlookup (scenario_heap_miss 1) CacheIDLabelKey = Some ''''
          \<and> fmlookup (scenario_heap_miss 1) ExecutionKey = fmlookup (scenario_heap 1) ExecutionKey)"
    using MutatePodIfCached_frame [OF scenario_miss_outcome] scenario_decode
    by (simp add: scenario_request_def scenario_pod_fields cache_miss_def) blast
  have other: "scenario_heap_miss 2 = scenario_heap 2"
    using frame by simp
  have name: "ArgoWorkflowNodeName \<noteq> ExecutionKey \<and> ArgoWorkflowNodeName \<noteq> ArgoWorkflowOutputs
                \<and> ArgoWorkflowNodeName \<noteq> CacheIDLabelKey"
    by (simp add: ArgoWorkflowNodeName_def ExecutionKey_def ArgoWorkflowOutputs_def
          CacheIDLabelKey_def)
  have kept: "fmlookup (scenario_heap_miss 0) ArgoWorkflowNodeName
                = fmlookup (scenario_heap 0) ArgoWorkflowNodeName"
    using frame name by blast
  have tmpl: "map_get scenario_heap (Some 0) ArgoWorkflowTemplate = Some ''{}''"
    by (simp add: scenario_template scenario_heap_def)
  from frame tmpl scenario_key_derived
  have written: "fmlookup (scenario_heap_miss 0) ExecutionKey = Some scenario_key
      \<and> fmlookup (scenario_heap_miss 0) ArgoWorkflowOutputs
          = fmlookup (scenario_heap 0) ArgoWorkflowOutputs
      \<and> fmlookup (scenario_heap_miss 1) CacheIDLabelKey = Some ''''
      \<and> fmlookup (scenario_heap_miss 1) ExecutionKey = fmlookup (scenario_heap 1) ExecutionKey"
    by auto
  show ?thesis
    using written by (simp add: scenario_miss_outcome other kept)
qed

subsection \<open>Lookup errors\<close>

text \<open>
  Claim C8 states that a lookup that returns an error is decided as a miss, whatever else
  the lookup returned with the error. The code fails it when the store returns a record
  together with an error: line 98 only logs the error, line 102 tests the record alone, and
  the request is decided as a hit, with the replace of the containers, the outputs
  annotation and the cache id 42.
\<close>

theorem MutatePodIfCached_record_with_error_is_hit:
  "generateCacheKeyFromTemplate scenario_lib ''{}'' = (scenario_key, None)
   \<and> cache_record_and_error scenario_key
       = (Some scenario_record, Some ''context deadline exceeded'')
   \<and> MutatePodIfCached scenario_lib cache_record_and_error (scenario_request raw_pod) empty_heap
     = Returns ((Some [\<lparr>Op = ''replace'', Path = ''/spec/containers'',
                         Value = ContainersValue (Some [dummyContainer])\<rparr>,
                       \<lparr>Op = ''add'', Path = ''/metadata/annotations'', Value = MapValue (Some 0)\<rparr>,
                       \<lparr>Op = ''add'', Path = ''/metadata/labels'', Value = MapValue (Some 1)\<rparr>],
                 None), scenario_heap_hit)
   \<and> map_get scenario_heap_hit (Some 0) ArgoWorkflowOutputs
       = Some (ExecutionOutput scenario_record)
   \<and> map_get scenario_heap_hit (Some 1) CacheIDLabelKey = Some ''42''"
proof -
  have run: "MutatePodIfCached scenario_lib cache_record_and_error (scenario_request raw_pod)
               empty_heap
     = Returns ((Some [\<lparr>Op = ''replace'', Path = ''/spec/containers'',
                         Value = ContainersValue (Some [dummyContainer])\<rparr>,
                       \<lparr>Op = ''add'', Path = ''/metadata/annotations'', Value = MapValue (Some 0)\<rparr>,
                       \<lparr>Op = ''add'', Path = ''/metadata/labels'', Value = MapValue (Some 1)\<rparr>],
                 None), scenario_heap_hit)"
    by (simp add: scenario_simps scenario_heap_hit_def fun_eq_iff)
  show ?thesis
    using scenario_heap_reads
    by (simp add: run scenario_key_derived cache_record_and_error_def)
qed

text \<open>
  Claim C8, amended. Whenever the cache lookup returns an error and no record, the request
  is decided exactly as a cache miss: the outcome is the outcome with a lookup that
  returns neither record nor error, no operation at the container-list or
  init-container-list path is emitted, the cache-id label is the empty string, and the
  outputs annotation is what it was before the call. The call returns whenever the pod has
  a label map.
\<close>

theorem MutatePodIfCached_error_without_record_is_miss:
  assumes res: "AdmissionRequest.Resource req = podResource"
    and dec: "Decode lib (Object_Raw req) h0 = Inr (pod, h)"
    and valid: "isValidPod h pod = Returns True"
    and tmpl: "map_get h (Annotations (ObjectMeta pod)) ArgoWorkflowTemplate = Some template"
    and key: "generateCacheKeyFromTemplate lib template = (key, None)"
    and lookup: "clientMgr key = (None, Some e)"
  shows "MutatePodIfCached lib clientMgr req h0 = MutatePodIfCached lib (\<lambda>k. (None, None)) req h0
       \<and> (Labels (ObjectMeta pod) \<noteq> None \<longrightarrow>
            (\<exists>patches h'. MutatePodIfCached lib clientMgr req h0 = Returns ((patches, None), h')))
       \<and> (\<forall>patches err h'.
             MutatePodIfCached lib clientMgr req h0 = Returns ((patches, err), h') \<longrightarrow>
               (\<forall>p \<in> set (elems patches).
                  Path p \<noteq> ''/spec/containers'' \<and> Path p \<noteq> ''/spec/initContainers'')
             \<and> map_get h' (Labels (ObjectMeta pod)) CacheIDLabelKey = Some ''''
             \<and> map_get h' (Annotations (ObjectMeta pod)) ArgoWorkflowOutputs
                 = map_get h (Annotations (ObjectMeta pod)) ArgoWorkflowOutputs)"
proof -
  from valid obtain a where a: "Annotations (ObjectMeta pod) = Some a"
    using isValidPod_annotations by blast
  show ?thesis
    using res dec valid tmpl key lookup a key_names_distinct
    by (auto simp: MutatePodIfCached_def Let_def map_assign_def append_slice_def map_get_def
          AnnotationPath_def LabelPath_def
        split: option.splits)
qed

text \<open>
  Claim C8 as amended, at the labelled pod and a store that returns no record and the
  error of a refused connection.
\<close>

theorem MutatePodIfCached_error_without_record_is_miss_witness:
  "cache_error scenario_key = (None, Some ''dial tcp: connection refused'')
   \<and> MutatePodIfCached scenario_lib cache_error (scenario_request raw_pod) empty_heap
     = MutatePodIfCached scenario_lib (\<lambda>k. (None, None)) (scenario_request raw_pod) empty_heap
   \<and> MutatePodIfCached scenario_lib cache_error (scenario_request raw_pod) empty_heap
     = Returns ((Some [\<lparr>Op = ''add'', Path = ''/metadata/annotations'', Value = MapValue (Some 0)\<rparr>,
                       \<lparr>Op = ''add'', Path = ''/metadata/labels'', Value = MapValue (Some 1)\<rparr>],
                 None), scenario_heap_miss)
   \<and> map_get scenario_heap_miss (Some 1) CacheIDLabelKey = Some ''''
   \<and> map_get scenario_heap_miss (Some 0) ArgoWorkflowOutputs = None"
  using MutatePodIfCached_error_without_record_is_miss
          [of "scenario_request raw_pod" scenario_lib empty_heap "scenario_pod (Some 1) None"
              scenario_heap "''{}''" scenario_key cache_error "''dial tcp: connection refused''"]
    scenario_decode scenario_key_derived scenario_error_outcome
    scenario_heap_reads
  by (simp add: scenario_request_def scenario_valid scenario_template scenario_pod_fields
        cache_error_def scenario_heap_def)

subsection \<open>Two defects\<close>

text \<open>
  Claim C1 states that after a successful decoding the call always returns a patch list
  and a nil error, also for a pod without labels. The code does not: for the eligible pod
  of Scenario B without its \<^verbatim>\<open>labels\<close> field, \<^verbatim>\<open>labels\<close> is the \<^verbatim>\<open>nil\<close> map, and the
  assignment of line 94 panics.
\<close>

theorem MutatePodIfCached_nil_labels_panics:
  "MutatePodIfCached scenario_lib cache_miss (scenario_request raw_pod_unlabelled) empty_heap
     = Panics NilMapAssignment"
  by (simp add: scenario_simps)

text \<open>
  Claim C2 states that on a hit the remove of the init-container list is emitted exactly
  when the pod declared one or more init containers, and not for an empty list. The code
  emits it for the pod of Scenario C with \<^verbatim>\<open>"initContainers":[]\<close>: the slice is empty and
  not \<^verbatim>\<open>nil\<close>, and the condition of line 119 is a disjunction.
\<close>

theorem MutatePodIfCached_empty_init_containers_removed:
  "MutatePodIfCached scenario_lib cache_hit (scenario_request raw_pod_empty_init) empty_heap
     = Returns ((Some [\<lparr>Op = ''replace'', Path = ''/spec/containers'',
                         Value = ContainersValue (Some [dummyContainer])\<rparr>,
                       \<lparr>Op = ''remove'', Path = ''/spec/initContainers'', Value = NoValue\<rparr>,
                       \<lparr>Op = ''add'', Path = ''/metadata/annotations'', Value = MapValue (Some 0)\<rparr>,
                       \<lparr>Op = ''add'', Path = ''/metadata/labels'', Value = MapValue (Some 1)\<rparr>],
                 None), scenario_heap_hit)"
  by (simp add: scenario_simps scenario_heap_hit_def fun_eq_iff)

end
